theory Spec2Isabelle
  imports Main "HOL-Library.Sublist" "HOL-Library.Word"
begin

section \<open>Text: sequences of Unicode code points\<close>

text \<open>
  A Python \<open>str\<close> is a sequence of Unicode code points. The em dash (U+2014) and the en
  dash (U+2013) of the source are not 8-bit characters, so a text is a list of code points
  (integers). \<open>str\<close> turns an ASCII literal of the theory into such a text.
\<close>

type_synonym ustr = "int list"

definition str :: "string \<Rightarrow> ustr" where
  "str s = map of_char s"

definition em_dash :: ustr where
  "em_dash = [0x2014]"

definition en_dash :: ustr where
  "en_dash = [0x2013]"

subsection \<open>\<open>pattern in content\<close> and \<open>content.replace(old, new)\<close>\<close>

fun contains :: "'a list \<Rightarrow> 'a list \<Rightarrow> bool" where
  "contains pat [] = (pat = [])"
| "contains pat (c # s) = (prefix pat (c # s) \<or> contains pat s)"

text \<open>
  \<open>str.replace\<close> scans from the left and replaces non-overlapping occurrences. With an
  empty \<open>old\<close>, Python puts \<open>new\<close> before every character and at the end.
\<close>

function replace :: "'a list \<Rightarrow> 'a list \<Rightarrow> 'a list \<Rightarrow> 'a list" where
  "replace old new [] = (if old = [] then new else [])"
| "replace old new (c # s) =
     (if old = [] then new @ c # replace old new s
      else if prefix old (c # s) then new @ replace old new (drop (length old) (c # s))
      else c # replace old new s)"
  by pat_completeness auto
termination
  by (relation "measure (\<lambda>(old, new, s). length s)") auto

text \<open>
  The three loops of the source have one shape: for each rule in order, if the pattern
  occurs in the current content, replace every occurrence and append the loop's label to
  \<open>changes\<close>.
\<close>

fun apply_rules :: "string \<Rightarrow> (ustr \<times> ustr) list \<Rightarrow> ustr \<times> string list \<Rightarrow> ustr \<times> string list" where
  "apply_rules label [] (content, changes) = (content, changes)"
| "apply_rules label ((old, new) # rules) (content, changes) =
     (if contains old content
      then apply_rules label rules (replace old new content, changes @ [label])
      else apply_rules label rules (content, changes))"

definition patterns_nationwide :: "ustr list" where
  "patterns_nationwide =
     [em_dash @ str '' Nationwide Shipping'',
      en_dash @ str '' Nationwide Shipping'',
      str ''- Nationwide Shipping'',
      str ''Nationwide Shipping'']"

definition state_replacements :: "(ustr \<times> ustr) list" where
  "state_replacements =
     [(str ''NY, NJ, GA, & CT'', str ''NJ''),
      (str ''NY, NJ, GA & CT'', str ''NJ''),
      (str ''NY, NJ, GA, CT'', str ''NJ''),
      (str ''NY, NJ, GA'', str ''NJ''),
      (str ''in NY, NJ, GA, & CT'', str ''in NJ''),
      (str ''in NY, NJ, GA & CT'', str ''in NJ''),
      (str ''in NY, NJ, GA, CT'', str ''in NJ''),
      (str ''in NY, NJ, GA'', str ''in NJ'')]"

definition middle_eastern_replacements :: "(ustr \<times> ustr) list" where
  "middle_eastern_replacements =
     [(str ''Middle Eastern Restaurant'', str ''Halal Restaurant''),
      (str ''Middle Eastern Cuisine'', str ''Halal Cuisine''),
      (str ''Middle Eastern Food'', str ''Halal Food''),
      (str ''Middle,Eastern,Restaurant'', str ''Halal,Restaurant''),
      (str ''Middle,Eastern,Food'', str ''Halal,Food''),
      (str ''Middle Eastern & Mediterranean'', str ''Halal''),
      (str ''authentic Middle Eastern'', str ''authentic Halal''),
      (str ''Middle Eastern'', str ''Halal'')]"

section \<open>Regular expressions\<close>

text \<open>
  The four patterns of the source use literals, character sets, \<open>\s\<close>, \<open>*\<close>, \<open>+\<close> and one
  alternation. \<open>rmatch\<close> is a backtracking matcher: it returns the remainders of the text
  after every way of matching at the start, in the order in which Python's engine tries
  them (a greedy star takes one more iteration first; an alternation tries its branches
  from the left). The match Python reports is the first one.

  All four calls pass \<open>re.IGNORECASE\<close>. For a \<open>str\<close> pattern a cased literal \<open>p\<close> then
  matches a character \<open>x\<close> when the simple lower case of \<open>x\<close> is that of \<open>p\<close> or one of
  its listed equivalents: besides the ASCII letter in both cases these are U+0130 and
  U+0131 for \<open>i\<close>, U+017F for \<open>s\<close> and U+212A for \<open>k\<close>. Every literal of the source's
  patterns is ASCII. \<open>re.DOTALL\<close> changes \<open>.\<close> only, which no pattern uses.
\<close>

datatype rx =
    Lit int
  | In "int list"
  | NotIn "int list"
  | Space
  | Eps
  | Seq rx rx
  | Alt rx rx
  | Star rx

definition ascii_lower :: "int \<Rightarrow> int" where
  "ascii_lower x = (if 65 \<le> x \<and> x \<le> 90 then x + 32 else x)"

definition ascii_alpha :: "int \<Rightarrow> bool" where
  "ascii_alpha x = ((65 \<le> x \<and> x \<le> 90) \<or> (97 \<le> x \<and> x \<le> 122))"

definition lit_match :: "bool \<Rightarrow> int \<Rightarrow> int \<Rightarrow> bool" where
  "lit_match ignorecase p x =
     (x = p \<or>
      (ignorecase \<and> ascii_alpha p \<and>
        (ascii_lower x = ascii_lower p
         \<or> (ascii_lower p = 105 \<and> (x = 0x130 \<or> x = 0x131))
         \<or> (ascii_lower p = 115 \<and> x = 0x17F)
         \<or> (ascii_lower p = 107 \<and> x = 0x212A))))"

text \<open>\<open>\s\<close> on a \<open>str\<close> pattern: the Unicode whitespace characters.\<close>

definition is_space :: "int \<Rightarrow> bool" where
  "is_space x =
     ((9 \<le> x \<and> x \<le> 13) \<or> (28 \<le> x \<and> x \<le> 32) \<or> x = 0x85 \<or> x = 0xA0 \<or> x = 0x1680
      \<or> (0x2000 \<le> x \<and> x \<le> 0x200A) \<or> x = 0x2028 \<or> x = 0x2029 \<or> x = 0x202F
      \<or> x = 0x205F \<or> x = 0x3000)"

fun one_char :: "(int \<Rightarrow> bool) \<Rightarrow> ustr \<Rightarrow> ustr list" where
  "one_char P [] = []"
| "one_char P (x # xs) = (if P x then [xs] else [])"

function rmatch :: "bool \<Rightarrow> rx \<Rightarrow> ustr \<Rightarrow> ustr list" where
  "rmatch ic (Lit p) s = one_char (lit_match ic p) s"
| "rmatch ic (In cs) s = one_char (\<lambda>x. x \<in> set cs) s"
| "rmatch ic (NotIn cs) s = one_char (\<lambda>x. x \<notin> set cs) s"
| "rmatch ic Space s = one_char is_space s"
| "rmatch ic Eps s = [s]"
| "rmatch ic (Seq a b) s = concat (map (rmatch ic b) (rmatch ic a s))"
| "rmatch ic (Alt a b) s = rmatch ic a s @ rmatch ic b s"
| "rmatch ic (Star a) s =
     concat (map (rmatch ic (Star a)) (filter (\<lambda>t. length t < length s) (rmatch ic a s))) @ [s]"
  by pat_completeness auto
termination
  by (relation "inv_image (less_than <*lex*> less_than) (\<lambda>(ic, r, s). (size r, length s))") auto

declare rmatch.simps [simp del]

text \<open>
  \<open>re.sub(pattern, repl, content)\<close> with a plain replacement string: at each position the
  first match is taken; after a non-empty match the scan goes on behind it; where nothing
  matches the character is copied. (An empty match puts the replacement and copies one
  character; none of the source's patterns can match the empty string.)
\<close>

function re_sub :: "bool \<Rightarrow> rx \<Rightarrow> ustr \<Rightarrow> ustr \<Rightarrow> ustr" where
  "re_sub ic r repl s =
     (case rmatch ic r s of
        [] \<Rightarrow> (case s of [] \<Rightarrow> [] | c # t \<Rightarrow> c # re_sub ic r repl t)
      | rest # _ \<Rightarrow>
          if length rest < length s then repl @ re_sub ic r repl rest
          else (case s of [] \<Rightarrow> repl | c # t \<Rightarrow> repl @ c # re_sub ic r repl t))"
  by pat_completeness auto
termination
  by (relation "measure (\<lambda>(ic, r, repl, s). length s)") auto

declare re_sub.simps [simp del]

text \<open>\<open>re.search(pattern, content) is not None\<close>: the pattern matches somewhere.\<close>

fun re_search :: "bool \<Rightarrow> rx \<Rightarrow> ustr \<Rightarrow> bool" where
  "re_search ic r [] = (rmatch ic r [] \<noteq> [])"
| "re_search ic r (c # s) = (rmatch ic r (c # s) \<noteq> [] \<or> re_search ic r s)"

fun seqs :: "rx list \<Rightarrow> rx" where
  "seqs [] = Eps"
| "seqs [r] = r"
| "seqs (r # rs) = Seq r (seqs rs)"

definition lits :: "string \<Rightarrow> rx" where
  "lits s = seqs (map Lit (str s))"

definition quote :: rx where
  "quote = In [34, 39]"

definition link_re :: rx where
  "link_re = seqs [lits ''<a'', Star (NotIn (str ''>'')), lits ''aria-label='', quote,
     lits ''Nationwide Shipping'', quote, Star (NotIn (str ''>'')),
     lits ''>Nationwide Shipping</a>'']"

definition li_link_re :: rx where
  "li_link_re = seqs [lits ''<li'', Star (NotIn (str ''>'')), lits ''>'', Star Space,
     link_re, Star Space, lits ''</li>'']"

definition heading_re :: rx where
  "heading_re = seqs [lits ''<h'', In (str ''12''), Star (NotIn (str ''>'')), lits ''>'',
     Star Space, lits ''Nationwide'', Space, Star Space, lits ''Shipping'', Star Space,
     lits ''</h'', In (str ''12''), lits ''>'']"

definition option_re :: rx where
  "option_re = seqs [lits ''<option'', Space, Star Space, lits ''value='', quote,
     lits ''mamouns-'', Star (NotIn [34, 39]), lits ''-'',
     Alt (lits ''ct'') (Alt (lits ''ny'') (Alt (lits ''nyc'') (lits ''ga''))),
     quote, Star (NotIn (str ''>'')), lits ''>'', Star (NotIn (str ''<'')),
     lits ''</option>'']"

section \<open>The per-file transform\<close>

text \<open>
  The body of \<open>fix_file\<close> between the read and the comparison with \<open>original\<close>, with the
  list of region rules as a parameter: the final content and the list \<open>changes\<close>.
\<close>

definition fix_text_with :: "(ustr \<times> ustr) list \<Rightarrow> ustr \<Rightarrow> ustr \<times> string list" where
  "fix_text_with states content =
     (let (c1, ch1) = apply_rules ''removed Nationwide Shipping''
                        (map (\<lambda>p. (p, [])) patterns_nationwide) (content, []);
          (c2, ch2) = apply_rules ''replaced states'' states (c1, ch1);
          (c3, ch3) = apply_rules ''replaced Middle Eastern'' middle_eastern_replacements (c2, ch2);
          c4 = re_sub True link_re [] c3;
          c5 = re_sub True li_link_re [] c4;
          c6 = re_sub True heading_re [] c5;
          c7 = replace (str ''Now Shipping Hot Sauce Nationwide'') (str ''Hot Sauce Available'') c6;
          c8 = replace (str ''Shipping Hot Sauce Nationwide'') (str ''Hot Sauce Available'') c7;
          c9 = re_sub True option_re [] c8
      in (c9, ch3))"

definition fix_text :: "ustr \<Rightarrow> ustr \<times> string list" where
  "fix_text = fix_text_with state_replacements"

text \<open>
  The target patterns of the transform: the literal patterns of the three loops and of the
  two hot-sauce replacements, and the four regular expressions. A text has none of them
  when no literal occurs in it and no expression matches anywhere in it.
\<close>

definition hot_sauce_replacements :: "(ustr \<times> ustr) list" where
  "hot_sauce_replacements =
     [(str ''Now Shipping Hot Sauce Nationwide'', str ''Hot Sauce Available''),
      (str ''Shipping Hot Sauce Nationwide'', str ''Hot Sauce Available'')]"

definition literal_targets :: "ustr list" where
  "literal_targets =
     patterns_nationwide @ map fst state_replacements @ map fst middle_eastern_replacements
     @ map fst hot_sauce_replacements"

definition regex_targets :: "rx list" where
  "regex_targets = [link_re, li_link_re, heading_re, option_re]"

definition no_targets :: "ustr \<Rightarrow> bool" where
  "no_targets s =
     (list_all (\<lambda>p. \<not> contains p s) literal_targets
      \<and> list_all (\<lambda>r. \<not> re_search True r s) regex_targets)"


definition after_nationwide :: "ustr \<Rightarrow> ustr \<times> string list" where
  "after_nationwide s =
     apply_rules ''removed Nationwide Shipping'' (map (\<lambda>p. (p, [])) patterns_nationwide) (s, [])"


definition after_states :: "ustr \<Rightarrow> ustr \<times> string list" where
  "after_states s = apply_rules ''replaced states'' state_replacements (after_nationwide s)"

section \<open>Files: bytes, UTF-8 and newlines\<close>

type_synonym byte = "8 word"

definition ascii_bytes :: "string \<Rightarrow> byte list" where
  "ascii_bytes s = map of_char s"

datatype py_error = FileNotFoundError | PermissionError | UnicodeDecodeError | UnicodeEncodeError

datatype errors = Strict | Replace

text \<open>
  One step of the UTF-8 decoder at the head of a non-empty input: a decoded character and
  the number of bytes it took, an invalid sequence and the number of bytes the error
  covers, or a sequence that is valid so far and needs more bytes than there are.
\<close>

datatype step = Char int nat | Invalid nat | Incomplete

definition continuation :: "byte \<Rightarrow> bool" where
  "continuation b = (0x80 \<le> uint b \<and> uint b \<le> 0xBF)"

fun utf8_step :: "byte list \<Rightarrow> step" where
  "utf8_step [] = Incomplete"
| "utf8_step (b # bs) =
     (let ch = uint b in
      if ch < 0x80 then Char ch 1
      else if ch < 0xC2 then Invalid 1
      else if ch < 0xE0 then
        (case bs of
           [] \<Rightarrow> Incomplete
         | b2 # _ \<Rightarrow>
             if continuation b2 then Char (ch * 64 + uint b2 - (0xC0 * 64 + 0x80)) 2
             else Invalid 1)
      else if ch < 0xF0 then
        (case bs of
           [] \<Rightarrow> Incomplete
         | b2 # bs2 \<Rightarrow>
             if \<not> continuation b2 \<or> (if uint b2 < 0xA0 then ch = 0xE0 else ch = 0xED)
             then Invalid 1
             else (case bs2 of
                     [] \<Rightarrow> Incomplete
                   | b3 # _ \<Rightarrow>
                       if continuation b3
                       then Char (ch * 4096 + uint b2 * 64 + uint b3
                                  - (0xE0 * 4096 + 0x80 * 64 + 0x80)) 3
                       else Invalid 2))
      else if ch < 0xF5 then
        (case bs of
           [] \<Rightarrow> Incomplete
         | b2 # bs2 \<Rightarrow>
             if \<not> continuation b2 \<or> (if uint b2 < 0x90 then ch = 0xF0 else ch = 0xF4)
             then Invalid 1
             else (case bs2 of
                     [] \<Rightarrow> Incomplete
                   | b3 # bs3 \<Rightarrow>
                       if \<not> continuation b3 then Invalid 2
                       else (case bs3 of
                               [] \<Rightarrow> Incomplete
                             | b4 # _ \<Rightarrow>
                                 if continuation b4
                                 then Char (ch * 262144 + uint b2 * 4096 + uint b3 * 64 + uint b4
                                            - (0xF0 * 262144 + 0x80 * 4096 + 0x80 * 64 + 0x80)) 4
                                 else Invalid 3)))
      else Invalid 1)"

text \<open>
  The incremental decoder: the decoded characters and the bytes kept for the next call.
  With \<open>errors='replace'\<close> an invalid sequence becomes U+FFFD; with the default
  \<open>errors='strict'\<close> it raises. An incomplete sequence at the end is kept unless the call
  is the final one.
\<close>

fun utf8_decode :: "errors \<Rightarrow> bool \<Rightarrow> byte list \<Rightarrow> py_error + (ustr \<times> byte list)" where
  "utf8_decode e final [] = Inr ([], [])"
| "utf8_decode e final (b # bs) =
     (case utf8_step (b # bs) of
        Char c n \<Rightarrow>
          (case utf8_decode e final (drop (n - 1) bs) of
             Inl x \<Rightarrow> Inl x
           | Inr (cs, pending) \<Rightarrow> Inr (c # cs, pending))
      | Invalid n \<Rightarrow>
          (case e of
             Strict \<Rightarrow> Inl UnicodeDecodeError
           | Replace \<Rightarrow>
               (case utf8_decode e final (drop (n - 1) bs) of
                  Inl x \<Rightarrow> Inl x
                | Inr (cs, pending) \<Rightarrow> Inr (0xFFFD # cs, pending)))
      | Incomplete \<Rightarrow>
          if final
          then (case e of Strict \<Rightarrow> Inl UnicodeDecodeError | Replace \<Rightarrow> Inr ([0xFFFD], []))
          else Inr ([], b # bs))"

fun utf8_encode :: "ustr \<Rightarrow> py_error + byte list" where
  "utf8_encode [] = Inr []"
| "utf8_encode (c # cs) =
     (if 0xD800 \<le> c \<and> c \<le> 0xDFFF then Inl UnicodeEncodeError
      else (case utf8_encode cs of
              Inl x \<Rightarrow> Inl x
            | Inr bs \<Rightarrow>
                Inr ((if c < 0x80 then [word_of_int c]
                      else if c < 0x800 then
                        [word_of_int (0xC0 + c div 64), word_of_int (0x80 + c mod 64)]
                      else if c < 0x10000 then
                        [word_of_int (0xE0 + c div 4096), word_of_int (0x80 + c div 64 mod 64),
                         word_of_int (0x80 + c mod 64)]
                      else
                        [word_of_int (0xF0 + c div 262144), word_of_int (0x80 + c div 4096 mod 64),
                         word_of_int (0x80 + c div 64 mod 64), word_of_int (0x80 + c mod 64)])
                     @ bs)))"

text \<open>
  Both reads open the file with the default \<open>newline=None\<close>: universal newlines, every
  \<open>\r\n\<close> and every other \<open>\r\<close> is read as \<open>\n\<close>. The decoder that does it keeps a
  \<open>\r\<close> at the end of a chunk back until the next chunk shows what follows.
\<close>

fun translate_newlines :: "ustr \<Rightarrow> ustr" where
  "translate_newlines [] = []"
| "translate_newlines [c] = (if c = 13 then [10] else [c])"
| "translate_newlines (c # d # s) =
     (if c = 13 \<and> d = 10 then 10 # translate_newlines s
      else if c = 13 then 10 # translate_newlines (d # s)
      else c # translate_newlines (d # s))"

definition newline_decode :: "bool \<Rightarrow> bool \<Rightarrow> ustr \<Rightarrow> ustr \<times> bool" where
  "newline_decode pendingcr final output =
     (let output1 = (if pendingcr \<and> (output \<noteq> [] \<or> final) then 13 # output else output);
          pendingcr1 = (pendingcr \<and> \<not> (output \<noteq> [] \<or> final));
          hold = (output1 \<noteq> [] \<and> last output1 = 13 \<and> \<not> final);
          output2 = (if hold then butlast output1 else output1)
      in (translate_newlines output2, hold \<or> pendingcr1))"

section \<open>The file system and the console\<close>

type_synonym path = string

record file_state =
  data :: "byte list"
  mtime :: nat
  readable :: bool
  writable :: bool

datatype event =
    ErrorMsg path py_error
  | DebugMsg ustr bool bool bool
  | ProcessedMsg path
  | ChangesMsg "string set"
  | SummaryMsg nat

record world =
  files :: "path \<rightharpoonup> file_state"
  now :: nat
  console :: "event list"

definition print :: "event \<Rightarrow> world \<Rightarrow> world" where
  "print e w = w\<lparr>console := console w @ [e]\<rparr>"

definition open_read :: "path \<Rightarrow> world \<Rightarrow> py_error + byte list" where
  "open_read p w =
     (case files w p of
        None \<Rightarrow> Inl FileNotFoundError
      | Some f \<Rightarrow> if readable f then Inr (data f) else Inl PermissionError)"

text \<open>\<open>open(file_path, 'r', encoding='utf-8', errors='replace')\<close> and \<open>f.read()\<close>.\<close>

definition read_all :: "errors \<Rightarrow> path \<Rightarrow> world \<Rightarrow> py_error + ustr" where
  "read_all e p w =
     (case open_read p w of
        Inl x \<Rightarrow> Inl x
      | Inr bs \<Rightarrow>
          (case utf8_decode e True bs of
             Inl x \<Rightarrow> Inl x
           | Inr (cs, pending) \<Rightarrow> Inr (fst (newline_decode False True cs))))"

text \<open>
  \<open>f.read(500)\<close> of the debug block: the text layer takes chunks of bytes from the file
  and decodes each one until it has \<open>n\<close> characters or the file ends. The size \<open>k\<close> of a
  chunk belongs to the I/O library and is a parameter.
\<close>

function read_n :: "nat \<Rightarrow> errors \<Rightarrow> nat \<Rightarrow> byte list \<Rightarrow> bool \<Rightarrow> byte list \<Rightarrow> ustr \<Rightarrow> py_error + ustr" where
  "read_n k e n pending pendingcr rest acc =
     (if n \<le> length acc then Inr (take n acc)
      else
        (let input_chunk = take k rest; eof = (input_chunk = []) in
         case utf8_decode e eof (pending @ input_chunk) of
           Inl x \<Rightarrow> Inl x
         | Inr (cs, pending1) \<Rightarrow>
             (case newline_decode pendingcr eof cs of
                (output, pendingcr1) \<Rightarrow>
                  if eof then Inr (take n (acc @ output))
                  else read_n k e n pending1 pendingcr1 (drop k rest) (acc @ output))))"
  by pat_completeness auto
termination
  by (relation "measure (\<lambda>(k, e, n, pending, pendingcr, rest, acc). length rest)") auto

declare read_n.simps [simp del]

text \<open>
  \<open>open(file_path, 'w', encoding='utf-8', newline='')\<close> truncates the file when it is
  opened; the text is encoded and written as it is (\<open>newline=''\<close>: no translation).
\<close>

definition open_write :: "path \<Rightarrow> world \<Rightarrow> py_error + world" where
  "open_write p w =
     (case files w p of
        None \<Rightarrow> Inr (w\<lparr>files := (files w)(p \<mapsto> \<lparr>data = [], mtime = now w, readable = True, writable = True\<rparr>)\<rparr>)
      | Some f \<Rightarrow>
          if writable f then Inr (w\<lparr>files := (files w)(p \<mapsto> f\<lparr>data := [], mtime := now w\<rparr>)\<rparr>)
          else Inl PermissionError)"

definition write_bytes :: "path \<Rightarrow> byte list \<Rightarrow> world \<Rightarrow> world" where
  "write_bytes p bs w =
     (case files w p of
        None \<Rightarrow> w
      | Some f \<Rightarrow> w\<lparr>files := (files w)(p \<mapsto> f\<lparr>data := bs, mtime := now w\<rparr>)\<rparr>)"

section \<open>\<open>fix_file\<close> and the main loop\<close>

text \<open>
  \<open>fix_file\<close>: the whole body is inside \<open>try\<close>; every error of the read, the encoding or
  the write prints the error line and returns \<open>(False, [])\<close>. \<open>list(set(changes))\<close> has no
  fixed order, so the second component is a set.
\<close>

definition fix_file :: "path \<Rightarrow> world \<Rightarrow> (bool \<times> string set) \<times> world" where
  "fix_file file_path w =
     (case read_all Replace file_path w of
        Inl e \<Rightarrow> ((False, {}), print (ErrorMsg file_path e) w)
      | Inr original \<Rightarrow>
          (case fix_text original of
             (content, changes) \<Rightarrow>
               if content \<noteq> original then
                 (case open_write file_path w of
                    Inl e \<Rightarrow> ((False, {}), print (ErrorMsg file_path e) w)
                  | Inr w1 \<Rightarrow>
                      (case utf8_encode content of
                         Inl e \<Rightarrow> ((False, {}), print (ErrorMsg file_path e) w1)
                       | Inr bs \<Rightarrow> ((True, set changes), write_bytes file_path bs w1)))
               else ((False, {}), w)))"

definition excluded :: "string list" where
  "excluded = [''signals'', ''schema.org'', ''replace_'', ''update_'', ''fix_'', ''final_'']"

text \<open>The filter over the result of \<open>rglob('*.html')\<close>, which is the argument.\<close>

definition html_files :: "path list \<Rightarrow> path list" where
  "html_files found = filter (\<lambda>f. \<not> list_ex (\<lambda>x. contains x f) excluded) found"

text \<open>\<open>html_file.name\<close>: the last component of the path.\<close>

definition name :: "path \<Rightarrow> string" where
  "name p = rev (takeWhile (\<lambda>c. c \<noteq> CHR ''/'') (rev p))"

text \<open>
  The debug block opens the file with \<open>encoding='utf-8'\<close> and no \<open>errors\<close> argument (strict
  decoding) and stands outside every \<open>try\<close>.
\<close>

definition debug_block :: "nat \<Rightarrow> path \<Rightarrow> world \<Rightarrow> py_error + world" where
  "debug_block k html_file w =
     (case open_read html_file w of
        Inl e \<Rightarrow> Inl e
      | Inr bs \<Rightarrow>
          (case read_n k Strict 500 [] False bs [] of
             Inl e \<Rightarrow> Inl e
           | Inr sample \<Rightarrow>
               Inr (print (DebugMsg sample (contains (str ''Nationwide'') sample)
                                    (contains (str ''NY, NJ, GA'') sample)
                                    (contains (str ''Middle Eastern'') sample)) w)))"

text \<open>
  The loop over \<open>html_files\<close>. An error that leaves the debug block is not caught: the run
  ends there (\<open>Inl\<close>), with the world as it was at that moment.
\<close>

fun main_loop :: "nat \<Rightarrow> path list \<Rightarrow> nat \<Rightarrow> world \<Rightarrow> (py_error \<times> world) + (nat \<times> world)" where
  "main_loop k [] processed w = Inr (processed, w)"
| "main_loop k (html_file # rest) processed w =
     (case (if name html_file = ''index.html'' then debug_block k html_file w else Inr w) of
        Inl e \<Rightarrow> Inl (e, w)
      | Inr w1 \<Rightarrow>
          (case fix_file html_file w1 of
             ((changed, changes), w2) \<Rightarrow>
               if changed then
                 main_loop k rest (processed + 1)
                   ((if changes \<noteq> {} then print (ChangesMsg changes) else id)
                      (print (ProcessedMsg html_file) w2))
               else main_loop k rest processed w2))"

definition main :: "nat \<Rightarrow> path list \<Rightarrow> world \<Rightarrow> (py_error \<times> world) + world" where
  "main k found w =
     (case main_loop k (html_files found) 0 w of
        Inl x \<Rightarrow> Inl x
      | Inr (processed, w1) \<Rightarrow> Inr (print (SummaryMsg processed) w1))"

section \<open>Example inputs\<close>

text \<open>
  A small site: an \<open>index.html\<close> whose only byte, \<open>0xFF\<close>, is not valid UTF-8, a page
  with CRLF line endings that the transform changes, and a page that it does not change.
\<close>

definition site :: world where
  "site =
     \<lparr>files =
        [''site/index.html'' \<mapsto>
           \<lparr>data = [0xFF], mtime = 1, readable = True, writable = True\<rparr>,
         ''site/menu.html'' \<mapsto>
           \<lparr>data = ascii_bytes ''<p>Middle Eastern</p>'' @ [13, 10], mtime = 1,
              readable = True, writable = True\<rparr>,
         ''site/about.html'' \<mapsto>
           \<lparr>data = ascii_bytes ''<p>Open Daily</p>'' @ [10], mtime = 1,
              readable = True, writable = True\<rparr>],
      now = 2, console = []\<rparr>"

text \<open>
  A list item that holds the shipping link, \<open><li><a href=/shipping
  aria-label="PHRASE">PHRASE</a></li>\<close>, for a given spelling of the phrase.
\<close>

definition li_link :: "string \<Rightarrow> ustr" where
  "li_link phrase =
     str ''<li><a href=/shipping aria-label='' @ [34] @ str phrase @ [34] @ str ''>''
     @ str phrase @ str ''</a></li>''"

section \<open>Basic facts about the operations\<close>


lemma replace_absent: "\<not> contains old s \<Longrightarrow> replace old new s = s"
proof (induction s)
  case Nil
  then show ?case by simp
next
  case (Cons c s)
  then show ?case by (cases "old = []") auto
qed

lemma apply_rules_absent:
  "list_all (\<lambda>r. \<not> contains (fst r) c) rules \<Longrightarrow> apply_rules label rules (c, ch) = (c, ch)"
  by (induction rules) auto

lemma re_sub_Nil:
  "re_sub ic r repl [] = (case rmatch ic r [] of [] \<Rightarrow> [] | rest # _ \<Rightarrow> repl)"
  by (subst re_sub.simps) (simp split: list.splits)

lemma re_sub_Cons:
  "re_sub ic r repl (c # s) =
     (case rmatch ic r (c # s) of
        [] \<Rightarrow> c # re_sub ic r repl s
      | rest # _ \<Rightarrow> if length rest < Suc (length s) then repl @ re_sub ic r repl rest
                   else repl @ c # re_sub ic r repl s)"
  by (subst re_sub.simps) (simp split: list.splits)

lemma re_sub_absent: "\<not> re_search ic r s \<Longrightarrow> re_sub ic r repl s = s"
  by (induction s) (simp_all add: re_sub_Nil re_sub_Cons)

lemma fix_text_no_targets: "no_targets s \<Longrightarrow> fix_text s = (s, [])"
  unfolding no_targets_def fix_text_def fix_text_with_def literal_targets_def regex_targets_def
    hot_sauce_replacements_def
  by (simp add: apply_rules_absent re_sub_absent replace_absent list_all_iff)





lemma fix_text_with_stages:
  "fix_text_with states s =
     (case apply_rules ''replaced states'' states (after_nationwide s) of
        (c2, ch2) \<Rightarrow>
          (case apply_rules ''replaced Middle Eastern'' middle_eastern_replacements (c2, ch2) of
             (c3, ch3) \<Rightarrow>
               (re_sub True option_re []
                  (replace (str ''Shipping Hot Sauce Nationwide'') (str ''Hot Sauce Available'')
                     (replace (str ''Now Shipping Hot Sauce Nationwide'') (str ''Hot Sauce Available'')
                        (re_sub True heading_re [] (re_sub True li_link_re [] (re_sub True link_re [] c3))))),
                ch3)))"
  by (simp add: fix_text_with_def after_nationwide_def Let_def split: prod.splits)

lemma apply_rules_labels_bounds:
  "set ch \<subseteq> set (snd (apply_rules l rules (c, ch)))
   \<and> set (snd (apply_rules l rules (c, ch))) \<subseteq> insert l (set ch)"
proof (induction rules arbitrary: c ch)
  case Nil
  then show ?case by auto
next
  case (Cons r rules)
  obtain old new where r: "r = (old, new)" by (cases r)
  show ?case
  proof (cases "contains old c")
    case True
    with Cons[of "ch @ [l]" "replace old new c"] r show ?thesis by auto
  next
    case False
    with Cons[of ch c] r show ?thesis by simp
  qed
qed

lemma apply_rules_labels:
  "set (snd (apply_rules l rules (c, ch)))
     = set ch \<union> (if list_ex (\<lambda>r. contains (fst r) c) rules then {l} else {})"
proof (induction rules arbitrary: c ch)
  case Nil
  then show ?case by simp
next
  case (Cons r rules)
  obtain old new where r: "r = (old, new)" by (cases r)
  show ?case
  proof (cases "contains old c")
    case True
    with apply_rules_labels_bounds[of "ch @ [l]" l rules "replace old new c"] r show ?thesis by auto
  next
    case False
    with Cons[of c ch] r show ?thesis by simp
  qed
qed

section \<open>The claims\<close>

text \<open>
  C1. Every exception of a file's read, transform or write is caught and the batch goes on;
  in particular a file that is not valid UTF-8, \<open>index.html\<close> included, never ends the
  batch. The code: the debug block reads \<open>index.html\<close> with strict decoding and outside
  \<open>try\<close>. On the example site the run ends at \<open>index.html\<close> with an uncaught
  \<open>UnicodeDecodeError\<close>: nothing is printed and \<open>menu.html\<close>, which comes next, keeps
  its old bytes. \<open>fix_file\<close> itself takes the same file without an error.
\<close>

theorem main_aborts_on_invalid_index:
  "(case main 8192 [''site/index.html'', ''site/menu.html''] site of
      Inl (e, w) \<Rightarrow>
        e = UnicodeDecodeError \<and> console w = []
        \<and> map_option data (files w ''site/menu.html'')
            = Some (ascii_bytes ''<p>Middle Eastern</p>'' @ [13, 10])
    | Inr w \<Rightarrow> False)
   \<and> fst (fix_file ''site/index.html'' site) = (False, {})"
  by code_simp

text \<open>
  C2. A shipping link wrapped in a list item is removed together with the list item. The
  code: with the phrase in lower case the first expression removes the anchor before the
  second one looks for it, and the empty list item stays; with the phrase spelled as in
  the source the first loop has already deleted it from the label and from the link
  text, so neither expression matches and the whole element stays.
\<close>

theorem li_wrapper_survives:
  "fst (fix_text (li_link ''nationwide shipping'')) = str ''<li></li>''
   \<and> fst (fix_text (li_link ''Nationwide Shipping''))
       = str ''<li><a href=/shipping aria-label='' @ [34, 34] @ str ''></a></li>''"
  by code_simp

text \<open>
  C3. A changed file is written back with its line endings as found. The code: the read
  translates \<open>\r\n\<close> to \<open>\n\<close> and the write translates nothing, so \<open>menu.html\<close>, read
  with CRLF, is written with LF.
\<close>

theorem crlf_written_as_lf:
  "map_option data (files site ''site/menu.html'')
     = Some (ascii_bytes ''<p>Middle Eastern</p>'' @ [13, 10])
   \<and> fst (fix_file ''site/menu.html'' site) = (True, {''replaced Middle Eastern''})
   \<and> map_option data (files (snd (fix_file ''site/menu.html'' site)) ''site/menu.html'')
     = Some (ascii_bytes ''<p>Halal</p>'' @ [10])"
  by code_simp




text \<open>
  C6. Each dash variant of the shipping phrase is removed with its dash, and \<open>Open Daily
  - Nationwide Shipping\<close> becomes exactly \<open>Open Daily\<close>. The code leaves the space that
  stood before the dash.
\<close>

theorem open_daily_keeps_space:
  "fst (fix_text (str ''Open Daily '' @ em_dash @ str '' Nationwide Shipping''))
     \<noteq> str ''Open Daily''"
  by code_simp

text \<open>
  C7. A file whose content the rules leave unchanged, as is every file with none of the
  target patterns, is not written: \<open>fix_file\<close> returns \<open>(False, [])\<close> and the world (the
  bytes and the timestamp of every file, and the console) is as before.
\<close>

theorem unchanged_file_untouched:
  "read_all Replace p w = Inr c \<Longrightarrow> fst (fix_text c) = c \<or> no_targets c \<Longrightarrow>
   fix_file p w = ((False, {}), w)"
proof -
  assume r: "read_all Replace p w = Inr c" and h: "fst (fix_text c) = c \<or> no_targets c"
  from h have "fst (fix_text c) = c" using fix_text_no_targets [of c] by auto
  with r show ?thesis by (auto simp: fix_file_def split: prod.splits)
qed

theorem unchanged_file_untouched_witness:
  "read_all Replace ''site/about.html'' site = Inr (str ''<p>Open Daily</p>'' @ [10])
   \<and> no_targets (str ''<p>Open Daily</p>'' @ [10])
   \<and> fix_file ''site/about.html'' site = ((False, {}), site)"
proof -
  have r: "read_all Replace ''site/about.html'' site = Inr (str ''<p>Open Daily</p>'' @ [10])"
    by code_simp
  have h: "no_targets (str ''<p>Open Daily</p>'' @ [10])"
    by code_simp
  show ?thesis
    using r h unchanged_file_untouched [OF r disjI2 [OF h]] by simp
qed

text \<open>
  C4. The report of a changed file names every category of rule that fired, also when
  only an expression-based rule or a hot-sauce replacement changed the file. The code
  records a label in the three loops only: a heading removed by the third expression and
  a hot-sauce sentence replaced both change the text and leave \<open>changes\<close> empty.
\<close>

theorem regex_only_change_reports_nothing:
  "fix_text (str ''<h1>nationwide shipping</h1>'') = ([], [])
   \<and> fix_text (str ''Now Shipping Hot Sauce Nationwide'') = (str ''Hot Sauce Available'', [])"
  by code_simp

text \<open>
  C4, amended. The reported set holds exactly the labels of the three loops that fired: a
  loop's label is in it if and only if one of the loop's patterns occurs in the content
  with which the loop starts. The rules after the loops add nothing to it.
\<close>

theorem changes_are_loop_labels:
  "set (snd (fix_text s)) =
     (if list_ex (\<lambda>p. contains p s) patterns_nationwide
      then {''removed Nationwide Shipping''} else {})
     \<union> (if list_ex (\<lambda>r. contains (fst r) (fst (after_nationwide s))) state_replacements
        then {''replaced states''} else {})
     \<union> (if list_ex (\<lambda>r. contains (fst r) (fst (after_states s))) middle_eastern_replacements
        then {''replaced Middle Eastern''} else {})"
proof -
  obtain c1 ch1 where a1: "after_nationwide s = (c1, ch1)" by (cases "after_nationwide s")
  obtain c2 ch2 where a2: "after_states s = (c2, ch2)" by (cases "after_states s")
  have 1: "set ch1 = (if list_ex (\<lambda>p. contains p s) patterns_nationwide
      then {''removed Nationwide Shipping''} else {})"
    using apply_rules_labels[of "''removed Nationwide Shipping''" "map (\<lambda>p. (p, [])) patterns_nationwide" s "[]"] a1
    by (simp add: after_nationwide_def list_ex_iff)
  have 2: "set ch2 = set ch1 \<union> (if list_ex (\<lambda>r. contains (fst r) c1) state_replacements
        then {''replaced states''} else {})"
    using apply_rules_labels[of "''replaced states''" state_replacements c1 ch1] a1 a2
    by (simp add: after_states_def)
  obtain c3 ch3 where a3: "apply_rules ''replaced Middle Eastern'' middle_eastern_replacements (c2, ch2) = (c3, ch3)"
    by (cases "apply_rules ''replaced Middle Eastern'' middle_eastern_replacements (c2, ch2)")
  have "snd (fix_text s) = ch3"
    using a2 a3 by (simp add: fix_text_def fix_text_with_stages after_states_def)
  then have 3: "set (snd (fix_text s)) = set ch2 \<union> (if list_ex (\<lambda>r. contains (fst r) c2) middle_eastern_replacements
        then {''replaced Middle Eastern''} else {})"
    using apply_rules_labels[of "''replaced Middle Eastern''" middle_eastern_replacements c2 ch2] a3
    by simp
  show ?thesis using 1 2 3 a1 a2 by simp
qed




end
